theory Spec2Isabelle
  imports Complex_Main "HOL-Library.Sublist"
begin

section \<open>Platform values: dates, errors, strings\<close>

text \<open>
  The dashboard's chart components (\<^verbatim>\<open>BatteryChart.tsx\<close>, which holds two versions of the
  component, and \<^verbatim>\<open>RawBatteryChart.tsx\<close>) filter a list of records by date and time of day,
  attach a \<^verbatim>\<open>displayTime\<close> label to each record, and cut a scroll/zoom window out of the
  result. They are written against the JavaScript \<^verbatim>\<open>Date\<close> object and the date-fns library.

  A JavaScript \<^verbatim>\<open>Date\<close> holds a time value, an integral number of milliseconds since the
  epoch, or NaN (an ``Invalid Date''). Local time is taken at a fixed offset from UTC
  (\<open>tzOffset\<close>, in milliseconds east of UTC): daylight-saving changes are not modelled.
\<close>

datatype Date = Date (getTime: int) | InvalidDate

datatype js_error = RangeError string | Error string

text \<open>date-fns 2 and date-fns 3 differ in \<^verbatim>\<open>isWithinInterval\<close>; the repository's lock file is
  not part of the sources, so the version is a parameter.\<close>

datatype date_fns = DateFns2 | DateFns3

text \<open>
  What the components take from their surroundings: the engine's \<^verbatim>\<open>new Date(string)\<close>
  (implementation-defined outside the ISO format), date-fns' \<^verbatim>\<open>parseISO\<close>, the clock read by
  \<^verbatim>\<open>new Date()\<close> (one reading per pass), the zone offset and the date-fns version.
\<close>

record platform =
  newDate :: "string \<Rightarrow> Date"
  parseISO :: "string \<Rightarrow> Date"
  now :: int
  tzOffset :: int
  dateFns :: date_fns

abbreviation msPerMinute :: int where "msPerMinute \<equiv> 60000"
abbreviation msPerHour :: int where "msPerHour \<equiv> 3600000"
abbreviation msPerDay :: int where "msPerDay \<equiv> 86400000"

text \<open>ECMAScript \<^verbatim>\<open>TimeClip\<close>: a time value beyond 8.64e15 ms is NaN.\<close>

definition timeClip :: "int \<Rightarrow> Date" where
  "timeClip t = (if \<bar>t\<bar> \<le> 8640000000000000 then Date t else InvalidDate)"

definition isValid :: "Date \<Rightarrow> bool" where
  "isValid d = (case d of Date t \<Rightarrow> True | InvalidDate \<Rightarrow> False)"

subsection \<open>Calendar fields of a local time value\<close>

definition hourOf :: "int \<Rightarrow> int" where
  "hourOf l = (l mod msPerDay) div msPerHour"

definition minuteOf :: "int \<Rightarrow> int" where
  "minuteOf l = (l mod msPerHour) div msPerMinute"

text \<open>
  Day number (days since 1970-01-01) to the month and the day of the month of the proleptic
  Gregorian calendar, and a calendar date to its day number. Days are counted within a
  400-year era of 146097 days that starts on a 1 March, so that the leap day comes last.
\<close>

definition dayOfEra :: "int \<Rightarrow> int" where
  "dayOfEra dayNumber = (dayNumber + 719468) mod 146097"

definition yearOfEra :: "int \<Rightarrow> int" where
  "yearOfEra doe = (doe - doe div 1460 + doe div 36524 - doe div 146096) div 365"

definition dayOfYear :: "int \<Rightarrow> int" where
  "dayOfYear doe = doe - (365 * yearOfEra doe + yearOfEra doe div 4 - yearOfEra doe div 100)"

definition monthFromMarch :: "int \<Rightarrow> int" where
  "monthFromMarch doy = (5 * doy + 2) div 153"

definition civilMonth :: "int \<Rightarrow> int" where
  "civilMonth doy = (if monthFromMarch doy < 10 then monthFromMarch doy + 3 else monthFromMarch doy - 9)"

definition civilDay :: "int \<Rightarrow> int" where
  "civilDay doy = doy - (153 * monthFromMarch doy + 2) div 5 + 1"

definition monthOf :: "int \<Rightarrow> int" where
  "monthOf l = civilMonth (dayOfYear (dayOfEra (l div msPerDay)))"

definition dayOfMonth :: "int \<Rightarrow> int" where
  "dayOfMonth l = civilDay (dayOfYear (dayOfEra (l div msPerDay)))"

definition daysBeforeYear :: "int \<Rightarrow> int" where
  "daysBeforeYear y = (y div 400) * 146097 + (y mod 400) * 365 + (y mod 400) div 4 - (y mod 400) div 100"

definition daysFromCivil :: "int \<Rightarrow> int \<Rightarrow> int \<Rightarrow> int" where
  "daysFromCivil y m d =
    daysBeforeYear (if m \<le> 2 then y - 1 else y)
      + (153 * (if m > 2 then m - 3 else m + 9) + 2) div 5 + d - 1 - 719468"

subsection \<open>Strings\<close>

text \<open>\<^verbatim>\<open>String.prototype.split\<close> with a one-character separator: the empty string splits into
  one empty piece, and adjacent separators give empty pieces.\<close>

fun js_split :: "char \<Rightarrow> string \<Rightarrow> string list" where
  "js_split sep [] = ['''']"
| "js_split sep (c # cs) =
    (if c = sep then [] # js_split sep cs
     else (case js_split sep cs of
             w # ws \<Rightarrow> (c # w) # ws
           | [] \<Rightarrow> [c] # []))"

definition padStart :: "nat \<Rightarrow> char \<Rightarrow> string \<Rightarrow> string" where
  "padStart n c s = replicate (n - length s) c @ s"

definition digitVal :: "char \<Rightarrow> nat option" where
  "digitVal c = (let n = (of_char c :: nat) in if 48 \<le> n \<and> n \<le> 57 then Some (n - 48) else None)"

fun digits :: "nat \<Rightarrow> string \<Rightarrow> nat option" where
  "digits acc [] = Some acc"
| "digits acc (c # cs) =
    (case digitVal c of None \<Rightarrow> None | Some d \<Rightarrow> digits (10 * acc + d) cs)"

text \<open>
  \<^verbatim>\<open>Number(s)\<close> on what an \<^verbatim>\<open><input type="time">\<close> can hold: the empty string is 0, a run of
  decimal digits is its value, and the text is otherwise taken to be NaN (\<open>None\<close>).
\<close>

definition Number :: "string \<Rightarrow> int option" where
  "Number s = map_option int (digits 0 s)"

definition digitChar :: "int \<Rightarrow> char" where
  "digitChar n = ''0123456789'' ! nat n"

definition pad2 :: "int \<Rightarrow> string" where
  "pad2 n = (if n < 10 then [CHR ''0'', digitChar n] else [digitChar (n div 10), digitChar (n mod 10)])"

definition monthAbbr :: "int \<Rightarrow> string" where
  "monthAbbr m =
    [''Jan'', ''Feb'', ''Mar'', ''Apr'', ''May'', ''Jun'',
     ''Jul'', ''Aug'', ''Sep'', ''Oct'', ''Nov'', ''Dec''] ! nat (m - 1)"

section \<open>date-fns\<close>

text \<open>\<^verbatim>\<open>startOfDay\<close> and \<^verbatim>\<open>endOfDay\<close> set the local time of day to 00:00:00.000 and to
  23:59:59.999; \<^verbatim>\<open>setMinutes\<close> and \<^verbatim>\<open>setHours\<close> replace one local field and keep the others.
  A NaN argument or an invalid date gives an invalid date.\<close>

definition startOfDay :: "platform \<Rightarrow> Date \<Rightarrow> Date" where
  "startOfDay p d =
    (case d of
       InvalidDate \<Rightarrow> InvalidDate
     | Date t \<Rightarrow> timeClip (t - (t + tzOffset p) mod msPerDay))"

definition endOfDay :: "platform \<Rightarrow> Date \<Rightarrow> Date" where
  "endOfDay p d =
    (case d of
       InvalidDate \<Rightarrow> InvalidDate
     | Date t \<Rightarrow> timeClip (t - (t + tzOffset p) mod msPerDay + (msPerDay - 1)))"

definition setMinutes :: "platform \<Rightarrow> Date \<Rightarrow> int option \<Rightarrow> Date" where
  "setMinutes p d minutes =
    (case (d, minutes) of
       (Date t, Some m) \<Rightarrow> timeClip (t - minuteOf (t + tzOffset p) * msPerMinute + m * msPerMinute)
     | _ \<Rightarrow> InvalidDate)"

definition setHours :: "platform \<Rightarrow> Date \<Rightarrow> int option \<Rightarrow> Date" where
  "setHours p d hours =
    (case (d, hours) of
       (Date t, Some h) \<Rightarrow> timeClip (t - hourOf (t + tzOffset p) * msPerHour + h * msPerHour)
     | _ \<Rightarrow> InvalidDate)"

text \<open>
  \<^verbatim>\<open>isWithinInterval(date, {start, end})\<close>. date-fns 2 throws a \<^verbatim>\<open>RangeError\<close> unless
  \<^verbatim>\<open>start <= end\<close> (so also when either is invalid); date-fns 3 orders the two ends first.
  Any comparison with NaN is false.
\<close>

definition isWithinInterval :: "platform \<Rightarrow> Date \<Rightarrow> Date \<Rightarrow> Date \<Rightarrow> js_error + bool" where
  "isWithinInterval p d start finish =
    (case dateFns p of
       DateFns2 \<Rightarrow>
         (case (start, finish) of
            (Date s, Date e) \<Rightarrow>
              if s \<le> e
              then Inr (case d of Date t \<Rightarrow> s \<le> t \<and> t \<le> e | InvalidDate \<Rightarrow> False)
              else Inl (RangeError ''Invalid interval'')
          | _ \<Rightarrow> Inl (RangeError ''Invalid interval''))
     | DateFns3 \<Rightarrow>
         (case (d, start, finish) of
            (Date t, Date s, Date e) \<Rightarrow> Inr (min s e \<le> t \<and> t \<le> max s e)
          | _ \<Rightarrow> Inr False))"

text \<open>\<^verbatim>\<open>differenceInDays(left, right)\<close>: the number of full days between the two dates,
  rounded towards zero; NaN (\<open>None\<close>) when either date is invalid.\<close>

definition differenceInDays :: "platform \<Rightarrow> Date \<Rightarrow> Date \<Rightarrow> int option" where
  "differenceInDays p left right =
    (case (left, right) of
       (Date l, Date r) \<Rightarrow>
         Some (if r \<le> l then (l - r) div msPerDay else - ((r - l) div msPerDay))
     | _ \<Rightarrow> None)"

text \<open>\<^verbatim>\<open>format(date, pattern)\<close> for the three patterns the components use; it throws a
  \<^verbatim>\<open>RangeError\<close> on an invalid date.\<close>

datatype pattern = Fmt_HHmm | Fmt_dd | Fmt_MMM

definition formatLocal :: "pattern \<Rightarrow> int \<Rightarrow> string" where
  "formatLocal f l =
    (case f of
       Fmt_HHmm \<Rightarrow> pad2 (hourOf l) @ '':'' @ pad2 (minuteOf l)
     | Fmt_dd \<Rightarrow> pad2 (dayOfMonth l)
     | Fmt_MMM \<Rightarrow> monthAbbr (monthOf l))"

definition format :: "platform \<Rightarrow> Date \<Rightarrow> pattern \<Rightarrow> js_error + string" where
  "format p d f =
    (case d of
       InvalidDate \<Rightarrow> Inl (RangeError ''Invalid time value'')
     | Date t \<Rightarrow> Inr (formatLocal f (t + tzOffset p)))"

section \<open>Records and view state\<close>

text \<open>
  Every chart row carries a \<^verbatim>\<open>time: string\<close>; \<^verbatim>\<open>BatteryData\<close> adds the two readings
  (\<^verbatim>\<open>number | null\<close>). The components only read \<^verbatim>\<open>time\<close>, so they are written over any
  extension of \<open>TimedRecord\<close>. The object \<^verbatim>\<open>{...item, displayTime}\<close> is the copied item
  together with the new field; by their declared types the records have no \<^verbatim>\<open>displayTime\<close>
  of their own.
\<close>

record TimedRecord =
  time :: string

record BatteryData = TimedRecord +
  soc :: "real option"
  socPredicted :: "real option"

record 'r ChartRow =
  item :: 'r
  displayTime :: string

text \<open>react-day-picker's \<^verbatim>\<open>DateRange\<close> (\<^verbatim>\<open>from\<close> and \<^verbatim>\<open>to\<close>, each possibly undefined); the
  state itself may be undefined. \<^verbatim>\<open>timeRange\<close> holds the two \<^verbatim>\<open>HH:mm\<close> input values.\<close>

record DateRange =
  dr_from :: "Date option"
  dr_to :: "Date option"

record TimeRange =
  tr_start :: string
  tr_end :: string

text \<open>\<^verbatim>\<open>try { return e } catch { return false }\<close> in a filter callback.\<close>

definition caught :: "js_error + bool \<Rightarrow> bool" where
  "caught r = (case r of Inl e \<Rightarrow> False | Inr b \<Rightarrow> b)"

text \<open>The two ends of the filter interval, \<^verbatim>\<open>from\<close> and \<^verbatim>\<open>to\<close>, as all three components
  compute them once \<^verbatim>\<open>date.from\<close> is set.\<close>

definition intervalStart :: "platform \<Rightarrow> Date \<Rightarrow> Date" where
  "intervalStart p f = startOfDay p f"

definition intervalEnd :: "platform \<Rightarrow> Date \<Rightarrow> Date option \<Rightarrow> Date" where
  "intervalEnd p f t = (case t of Some e \<Rightarrow> endOfDay p e | None \<Rightarrow> endOfDay p f)"

section \<open>RawBatteryChart.tsx\<close>

definition monthMap :: "string \<Rightarrow> string option" where
  "monthMap = map_of
    [(''Jan'', ''01''), (''Feb'', ''02''), (''Mar'', ''03''), (''Apr'', ''04''),
     (''May'', ''05''), (''Jun'', ''06''), (''Jul'', ''07''), (''Aug'', ''08''),
     (''Sep'', ''09''), (''Oct'', ''10''), (''Nov'', ''11''), (''Dec'', ''12'')]"

text \<open>
  \<^verbatim>\<open>parseCustomTimestamp\<close>, with the lines it writes to \<^verbatim>\<open>console.error\<close>. Six pieces are
  rebuilt into \<^verbatim>\<open>`${year}-${month}-${day}T${time}`\<close> and handed to \<^verbatim>\<open>new Date\<close>, where a month
  missing from the table prints as \<^verbatim>\<open>undefined\<close> (a key that the table object inherits, such
  as \<^verbatim>\<open>constructor\<close>, prints as other text that is no month number either). Any other count
  throws inside the function's own \<^verbatim>\<open>try\<close>, whose handler logs and returns \<^verbatim>\<open>new Date()\<close>.
\<close>

definition parseCustomTimestamp_log :: "platform \<Rightarrow> string \<Rightarrow> Date \<times> (string \<times> string) list" where
  "parseCustomTimestamp_log p timestamp =
    (let parts = js_split CHR '' '' timestamp in
     if length parts = 6 then
       (let month = (case monthMap (parts ! 1) of Some m \<Rightarrow> m | None \<Rightarrow> ''undefined'');
            day = padStart 2 CHR ''0'' (parts ! 2);
            tm = parts ! 3;
            year = parts ! 5
        in (newDate p (year @ ''-'' @ month @ ''-'' @ day @ ''T'' @ tm), []))
     else (Date (now p), [(''Error parsing timestamp:'', timestamp)]))"

definition parseCustomTimestamp :: "platform \<Rightarrow> string \<Rightarrow> Date" where
  "parseCustomTimestamp p timestamp = fst (parseCustomTimestamp_log p timestamp)"

text \<open>Array destructuring \<^verbatim>\<open>const [a, b] = xs\<close>: a missing element is \<^verbatim>\<open>undefined\<close>, which the
  setters turn into NaN.\<close>

definition element :: "int option list \<Rightarrow> nat \<Rightarrow> int option" where
  "element xs i = (if i < length xs then xs ! i else None)"

definition rawDateFilter ::
  "platform \<Rightarrow> DateRange option \<Rightarrow> ('a TimedRecord_scheme) list \<Rightarrow> ('a TimedRecord_scheme) list" where
  "rawDateFilter p dateRange data =
    (case dateRange of
       None \<Rightarrow> data
     | Some dr \<Rightarrow>
         (case dr_from dr of
            None \<Rightarrow> data
          | Some f \<Rightarrow>
              (let from = intervalStart p f;
                   to = intervalEnd p f (dr_to dr)
               in filter (\<lambda>item.
                    caught (let itemDate = parseCustomTimestamp p (time item)
                            in isWithinInterval p itemDate from to)) data)))"

definition rawTimeFilter ::
  "platform \<Rightarrow> TimeRange \<Rightarrow> ('a TimedRecord_scheme) list \<Rightarrow> ('a TimedRecord_scheme) list" where
  "rawTimeFilter p timeRange processedData =
    (if tr_start timeRange \<noteq> [] \<and> tr_end timeRange \<noteq> [] then
       (let starts = map Number (js_split CHR '':'' (tr_start timeRange));
            startHours = element starts 0;
            startMinutes = element starts 1;
            ends = map Number (js_split CHR '':'' (tr_end timeRange));
            endHours = element ends 0;
            endMinutes = element ends 1
        in filter (\<lambda>item.
             caught (let itemDate = parseCustomTimestamp p (time item);
                         itemTime = setHours p (setMinutes p itemDate (Some 0)) (Some 0);
                         startTime = setHours p (setMinutes p itemDate startMinutes) startHours;
                         endTime = setHours p (setMinutes p itemDate endMinutes) endHours
                     in isWithinInterval p itemTime startTime endTime)) processedData)
     else processedData)"

definition rawLabel :: "platform \<Rightarrow> 'a TimedRecord_scheme \<Rightarrow> ('a TimedRecord_scheme) ChartRow" where
  "rawLabel p x =
    (let itemDate = parseCustomTimestamp p (time x) in
     case format p itemDate Fmt_HHmm of
       Inr s \<Rightarrow> \<lparr>item = x, displayTime = s\<rparr>
     | Inl e \<Rightarrow> \<lparr>item = x, displayTime = time x\<rparr>)"


definition RawBatteryChart_filteredData ::
  "platform \<Rightarrow> DateRange option \<Rightarrow> TimeRange \<Rightarrow> ('a TimedRecord_scheme) list
     \<Rightarrow> ('a TimedRecord_scheme) ChartRow list" where
  "RawBatteryChart_filteredData p dateRange timeRange data =
    (if data = [] then []
     else map (rawLabel p) (rawTimeFilter p timeRange (rawDateFilter p dateRange data)))"

section \<open>BatteryChart.tsx, first component\<close>

definition dateFilter ::
  "platform \<Rightarrow> DateRange option \<Rightarrow> ('a TimedRecord_scheme) list \<Rightarrow> ('a TimedRecord_scheme) list" where
  "dateFilter p date data =
    (case date of
       None \<Rightarrow> data
     | Some dr \<Rightarrow>
         (case dr_from dr of
            None \<Rightarrow> data
          | Some f \<Rightarrow>
              (let from = intervalStart p f;
                   to = intervalEnd p f (dr_to dr)
               in filter (\<lambda>item.
                    caught (let itemDate = parseISO p (time item)
                            in isWithinInterval p itemDate from to)) data)))"

text \<open>\<^verbatim>\<open>Array.prototype.map\<close> with a callback that may throw: the first exception leaves the
  whole computation.\<close>

fun mapE :: "('a \<Rightarrow> js_error + 'b) \<Rightarrow> 'a list \<Rightarrow> js_error + 'b list" where
  "mapE f [] = Inr []"
| "mapE f (x # xs) =
    (case f x of
       Inl e \<Rightarrow> Inl e
     | Inr y \<Rightarrow> (case mapE f xs of Inl e \<Rightarrow> Inl e | Inr ys \<Rightarrow> Inr (y # ys)))"

definition label :: "platform \<Rightarrow> 'a TimedRecord_scheme \<Rightarrow> js_error + ('a TimedRecord_scheme) ChartRow" where
  "label p x =
    (case format p (parseISO p (time x)) Fmt_HHmm of
       Inl e \<Rightarrow> Inl e
     | Inr s \<Rightarrow> Inr \<lparr>item = x, displayTime = s\<rparr>)"

definition BatteryChart_filteredData ::
  "platform \<Rightarrow> DateRange option \<Rightarrow> ('a TimedRecord_scheme) list
     \<Rightarrow> js_error + ('a TimedRecord_scheme) ChartRow list" where
  "BatteryChart_filteredData p date data =
    (if data = [] then Inr [] else mapE (label p) (dateFilter p date data))"

section \<open>BatteryChart.tsx, second component\<close>

text \<open>The label pattern chosen from \<^verbatim>\<open>daysDifference\<close>; every comparison with NaN is false, so
  NaN falls through to the last branch.\<close>

definition spanPattern :: "int option \<Rightarrow> pattern" where
  "spanPattern daysDifference =
    (if daysDifference = Some 0 then Fmt_HHmm
     else if (case daysDifference of Some n \<Rightarrow> n \<le> 7 | None \<Rightarrow> False) then Fmt_HHmm
     else if (case daysDifference of Some n \<Rightarrow> n \<le> 31 | None \<Rightarrow> False) then Fmt_dd
     else Fmt_MMM)"

definition labelInRange ::
  "platform \<Rightarrow> int option \<Rightarrow> 'a TimedRecord_scheme \<Rightarrow> ('a TimedRecord_scheme) ChartRow" where
  "labelInRange p daysDifference x =
    (let itemDate = newDate p (time x) in
     case (if \<not> isValid itemDate then Inl (Error ''Invalid date'')
           else format p itemDate (spanPattern daysDifference)) of
       Inr formattedTime \<Rightarrow> \<lparr>item = x, displayTime = formattedTime\<rparr>
     | Inl e \<Rightarrow> \<lparr>item = x, displayTime = time x\<rparr>)"

definition labelNoRange :: "platform \<Rightarrow> 'a TimedRecord_scheme \<Rightarrow> ('a TimedRecord_scheme) ChartRow" where
  "labelNoRange p x =
    (let itemDate = newDate p (time x) in
     case (if \<not> isValid itemDate then Inl (Error ''Invalid date'')
           else if CHR ''T'' \<in> set (time x) then format p itemDate Fmt_HHmm
           else Inr (time x)) of
       Inr s \<Rightarrow> \<lparr>item = x, displayTime = s\<rparr>
     | Inl e \<Rightarrow> \<lparr>item = x, displayTime = time x\<rparr>)"

definition dateFilter2 ::
  "platform \<Rightarrow> Date \<Rightarrow> Date \<Rightarrow> ('a TimedRecord_scheme) list \<Rightarrow> ('a TimedRecord_scheme) list" where
  "dateFilter2 p from to data =
    filter (\<lambda>item.
      caught (let itemDate = newDate p (time item)
              in if isValid itemDate then isWithinInterval p itemDate from to else Inr False)) data"

definition BatteryChart2_filteredData ::
  "platform \<Rightarrow> DateRange option \<Rightarrow> ('a TimedRecord_scheme) list
     \<Rightarrow> ('a TimedRecord_scheme) ChartRow list" where
  "BatteryChart2_filteredData p date data =
    (if data = [] then []
     else (case (case date of None \<Rightarrow> None | Some dr \<Rightarrow> dr_from dr) of
             Some f \<Rightarrow>
               (let from = intervalStart p f;
                    to = intervalEnd p f (case date of None \<Rightarrow> None | Some dr \<Rightarrow> dr_to dr);
                    daysDifference = differenceInDays p to from
                in map (labelInRange p daysDifference) (dateFilter2 p from to data))
           | None \<Rightarrow> map (labelNoRange p) data))"

section \<open>Scroll and zoom window\<close>

text \<open>\<^verbatim>\<open>Array.prototype.slice(start, end)\<close>: a negative index counts from the end of the array,
  and both indices are brought into \<open>[0, length]\<close>.\<close>

definition js_slice :: "'a list \<Rightarrow> int \<Rightarrow> int \<Rightarrow> 'a list" where
  "js_slice xs start finish =
    (let n = int (length xs);
         k = (if start < 0 then max (n + start) 0 else min start n);
         e = (if finish < 0 then max (n + finish) 0 else min finish n)
     in take (nat (e - k)) (drop (nat k) xs))"

definition maxScrollIndex :: "nat \<Rightarrow> int \<Rightarrow> int" where
  "maxScrollIndex filteredLength zoomLevel = max 0 (int filteredLength - zoomLevel)"

definition clampedScrollIndex :: "nat \<Rightarrow> int \<Rightarrow> int \<Rightarrow> int" where
  "clampedScrollIndex filteredLength scrollIndex zoomLevel =
    min scrollIndex (maxScrollIndex filteredLength zoomLevel)"

definition visibleData :: "'a list \<Rightarrow> int \<Rightarrow> int \<Rightarrow> 'a list" where
  "visibleData filteredData scrollIndex zoomLevel =
    (let c = clampedScrollIndex (length filteredData) scrollIndex zoomLevel
     in js_slice filteredData c (c + zoomLevel))"

text \<open>The zoom handlers, \<^verbatim>\<open>prev => Math.max(10, prev - step)\<close> and
  \<^verbatim>\<open>prev => Math.min(data.length, prev + step)\<close>: the buttons of the first component step by
  30, the wheel and the buttons of the second by 10. \<open>dataLength\<close> is the length of the
  unfiltered \<^verbatim>\<open>data\<close>.\<close>

definition zoomIn :: "int \<Rightarrow> int \<Rightarrow> int" where
  "zoomIn step prev = max 10 (prev - step)"

definition zoomOut :: "int \<Rightarrow> nat \<Rightarrow> int \<Rightarrow> int" where
  "zoomOut step dataLength prev = min (int dataLength) (prev + step)"

section \<open>A concrete platform\<close>

text \<open>
  To run the components on examples: the ECMAScript date-time string format
  \<^verbatim>\<open>YYYY-MM-DD\<close>, optionally followed by \<^verbatim>\<open>THH:mm\<close>, \<^verbatim>\<open>THH:mm:ss\<close> or \<^verbatim>\<open>THH:mm:ss.sss\<close> and
  a \<^verbatim>\<open>Z\<close>. Without \<^verbatim>\<open>Z\<close> a date-time is local; a date alone is UTC for \<^verbatim>\<open>new Date\<close> and local
  for \<^verbatim>\<open>parseISO\<close>. Fields out of range, and every other text, give an invalid date. The
  general theorems below hold for every platform and do not depend on this one.
\<close>

definition field :: "nat \<Rightarrow> string \<Rightarrow> int option" where
  "field n s = (if length s = n then map_option int (digits 0 s) else None)"

definition daysInMonth :: "int \<Rightarrow> int \<Rightarrow> int" where
  "daysInMonth y m =
    (if m = 2 then (if y mod 4 = 0 \<and> (y mod 100 \<noteq> 0 \<or> y mod 400 = 0) then 29 else 28)
     else if m = 4 \<or> m = 6 \<or> m = 9 \<or> m = 11 then 30 else 31)"

definition isoDate :: "string \<Rightarrow> int option" where
  "isoDate s =
    (case map (field 2) (js_split CHR ''-'' s) of
       [_, Some m, Some d] \<Rightarrow>
         (case field 4 (hd (js_split CHR ''-'' s)) of
            Some y \<Rightarrow>
              if 1 \<le> m \<and> m \<le> 12 \<and> 1 \<le> d \<and> d \<le> daysInMonth y m
              then Some (daysFromCivil y m d * msPerDay) else None
          | None \<Rightarrow> None)
     | _ \<Rightarrow> None)"

definition isoClock :: "string \<Rightarrow> int option" where
  "isoClock s =
    (case js_split CHR ''.'' s of
       [clk] \<Rightarrow>
         (case map (field 2) (js_split CHR '':'' clk) of
            [Some h, Some m] \<Rightarrow>
              if h \<le> 23 \<and> m \<le> 59 then Some (h * msPerHour + m * msPerMinute) else None
          | [Some h, Some m, Some sec] \<Rightarrow>
              if h \<le> 23 \<and> m \<le> 59 \<and> sec \<le> 59
              then Some (h * msPerHour + m * msPerMinute + sec * 1000) else None
          | _ \<Rightarrow> None)
     | [clk, millis] \<Rightarrow>
         (case (map (field 2) (js_split CHR '':'' clk), field 3 millis) of
            ([Some h, Some m, Some sec], Some ms) \<Rightarrow>
              if h \<le> 23 \<and> m \<le> 59 \<and> sec \<le> 59
              then Some (h * msPerHour + m * msPerMinute + sec * 1000 + ms) else None
          | _ \<Rightarrow> None)
     | _ \<Rightarrow> None)"

definition isoDateTime :: "bool \<Rightarrow> int \<Rightarrow> string \<Rightarrow> Date" where
  "isoDateTime dateOnlyIsUTC tz s =
    (case js_split CHR ''T'' s of
       [d] \<Rightarrow>
         (case isoDate d of
            Some day \<Rightarrow> timeClip (if dateOnlyIsUTC then day else day - tz)
          | None \<Rightarrow> InvalidDate)
     | [d, c] \<Rightarrow>
         (let utc = (c \<noteq> [] \<and> last c = CHR ''Z'');
              clock = (if utc then butlast c else c)
          in case (isoDate d, isoClock clock) of
               (Some day, Some ms) \<Rightarrow> timeClip (if utc then day + ms else day + ms - tz)
             | _ \<Rightarrow> InvalidDate)
     | _ \<Rightarrow> InvalidDate)"

definition jsPlatform :: "date_fns \<Rightarrow> int \<Rightarrow> int \<Rightarrow> platform" where
  "jsPlatform v tz clock =
    \<lparr>newDate = isoDateTime True tz, parseISO = isoDateTime False tz,
     now = clock, tzOffset = tz, dateFns = v\<rparr>"

text \<open>Local midnight of a calendar day, as the date picker hands it over.\<close>

definition localDay :: "int \<Rightarrow> int \<Rightarrow> int \<Rightarrow> int \<Rightarrow> Date" where
  "localDay tz y m d = Date (daysFromCivil y m d * msPerDay - tz)"

section \<open>Evaluation and helper lemmas\<close>

lemmas run_defs =
  isoDateTime_def isoDate_def isoClock_def field_def digitVal_def daysFromCivil_def
  daysBeforeYear_def dayOfEra_def yearOfEra_def dayOfYear_def monthFromMarch_def
  civilMonth_def civilDay_def timeClip_def jsPlatform_def localDay_def daysInMonth_def
  parseCustomTimestamp_def parseCustomTimestamp_log_def monthMap_def padStart_def
  startOfDay_def endOfDay_def setMinutes_def setHours_def isWithinInterval_def
  differenceInDays_def format_def formatLocal_def hourOf_def minuteOf_def monthOf_def dayOfMonth_def
  pad2_def digitChar_def monthAbbr_def Number_def element_def caught_def isValid_def
  intervalStart_def intervalEnd_def

lemma js_split_no_sep: "sep \<notin> set a \<Longrightarrow> js_split sep a = [a]"
  by (induction a) auto

lemma js_split_token: "sep \<notin> set a \<Longrightarrow> js_split sep (a @ sep # rest) = a # js_split sep rest"
  by (induction a) auto

lemma filter_by_output: "filter (\<lambda>x. x \<in> set xs \<and> P x) xs = filter P xs"
  by (rule filter_cong) auto

lemma filter_member: "filter (\<lambda>x. x \<in> set xs) xs = xs"
  by (rule filter_True) simp

lemma rawDateFilter_Nil: "rawDateFilter p dr [] = []"
  by (simp add: rawDateFilter_def Let_def split: option.splits)


lemma rawDateFilter_subseq: "subseq (rawDateFilter p dr data) data"
  by (simp add: rawDateFilter_def Let_def split: option.splits)

lemma rawDateFilter_by_output:
  "filter (\<lambda>x. x \<in> set (rawDateFilter p dr data)) data = rawDateFilter p dr data"
  by (simp add: rawDateFilter_def Let_def filter_by_output filter_member split: option.splits)

lemma rawTimeFilter_Nil: "rawTimeFilter p tr [] = []"
  by (simp add: rawTimeFilter_def Let_def)


lemma rawTimeFilter_subseq: "subseq (rawTimeFilter p tr data) data"
  by (simp add: rawTimeFilter_def Let_def)

lemma dateFilter_Nil: "dateFilter p dr [] = []"
  by (simp add: dateFilter_def Let_def split: option.splits)

lemma dateFilter_subseq: "subseq (dateFilter p dr data) data"
  by (simp add: dateFilter_def Let_def split: option.splits)

lemma dateFilter_by_output:
  "filter (\<lambda>x. x \<in> set (dateFilter p dr data)) data = dateFilter p dr data"
  by (simp add: dateFilter_def Let_def filter_by_output filter_member split: option.splits)

lemma item_rawLabel: "item \<circ> rawLabel p = id"
  by (rule ext) (simp add: rawLabel_def Let_def split: sum.splits)

lemma item_labelInRange: "item \<circ> labelInRange p n = id"
  by (rule ext) (simp add: labelInRange_def Let_def split: sum.splits)

lemma item_labelNoRange: "item \<circ> labelNoRange p = id"
  by (rule ext) (simp add: labelNoRange_def Let_def split: sum.splits)

lemma map_item_mapE: "mapE (label p) xs = Inr rows \<Longrightarrow> map item rows = xs"
  by (induction xs arbitrary: rows) (auto simp: label_def split: sum.splits)

lemma raw_items:
  "map item (RawBatteryChart_filteredData p dr tr data) = rawTimeFilter p tr (rawDateFilter p dr data)"
  by (simp add: RawBatteryChart_filteredData_def item_rawLabel rawDateFilter_Nil rawTimeFilter_Nil)

lemma chart2_items_no_date:
  "(case date of None \<Rightarrow> None | Some dr \<Rightarrow> dr_from dr) = None
   \<Longrightarrow> map item (BatteryChart2_filteredData p date data) = data"
  by (simp add: BatteryChart2_filteredData_def item_labelNoRange)

lemma chart2_items_date:
  "date = Some dr \<Longrightarrow> dr_from dr = Some f
   \<Longrightarrow> map item (BatteryChart2_filteredData p date data)
       = dateFilter2 p (intervalStart p f) (intervalEnd p f (dr_to dr)) data"
  by (simp add: BatteryChart2_filteredData_def Let_def item_labelInRange dateFilter2_def)

lemma chart_items:
  assumes "BatteryChart_filteredData p date data = Inr rows"
  shows "map item rows = dateFilter p date data"
proof (cases "data = []")
  case True
  with assms show ?thesis by (simp add: BatteryChart_filteredData_def dateFilter_Nil)
next
  case False
  with assms show ?thesis by (simp add: BatteryChart_filteredData_def map_item_mapE)
qed

section \<open>The timestamp parser\<close>

text \<open>
  Claim C2. The claim reads the second timestamp format as weekday, month, day, time and
  year, and expects \<^verbatim>\<open>"Wed Jan 03 14:05:00 2024"\<close> to parse to the instant of
  \<^verbatim>\<open>"2024-01-03T14:05:00"\<close>. The parser asks for exactly six pieces and reads the year from
  the sixth, so the format has one more piece between the time and the year, which is
  ignored. For every six-piece timestamp whose month is in the table, the parser hands
  \<^verbatim>\<open>new Date\<close> the ISO text rebuilt from the year, the month's number, the day padded to two
  digits and the time, and logs nothing.
\<close>

theorem parseCustomTimestamp_six_tokens:
  assumes "CHR '' '' \<notin> set w" "CHR '' '' \<notin> set mon" "CHR '' '' \<notin> set d"
    and "CHR '' '' \<notin> set tm" "CHR '' '' \<notin> set z" "CHR '' '' \<notin> set y"
    and "monthMap mon = Some m"
  shows "parseCustomTimestamp_log p (w @ '' '' @ mon @ '' '' @ d @ '' '' @ tm @ '' '' @ z @ '' '' @ y)
         = (newDate p (y @ ''-'' @ m @ ''-'' @ padStart 2 CHR ''0'' d @ ''T'' @ tm), [])"
proof -
  have "js_split CHR '' '' (w @ '' '' @ mon @ '' '' @ d @ '' '' @ tm @ '' '' @ z @ '' '' @ y)
        = [w, mon, d, tm, z, y]"
    using assms(1-6) by (simp add: js_split_token js_split_no_sep)
  then show ?thesis
    using assms(7) by (simp add: parseCustomTimestamp_log_def)
qed

text \<open>With the zone name as fifth piece, the timestamp of the claim parses to the instant of
  the ISO text: 2024-01-03 14:05:00 local time.\<close>

theorem parseCustomTimestamp_six_tokens_witness:
  "CHR '' '' \<notin> set ''Wed'' \<and> CHR '' '' \<notin> set ''Jan'' \<and> CHR '' '' \<notin> set ''03''
   \<and> CHR '' '' \<notin> set ''14:05:00'' \<and> CHR '' '' \<notin> set ''UTC'' \<and> CHR '' '' \<notin> set ''2024''
   \<and> monthMap ''Jan'' = Some ''01''
   \<and> parseCustomTimestamp_log (jsPlatform DateFns3 0 1750000000000) ''Wed Jan 03 14:05:00 UTC 2024''
       = (parseISO (jsPlatform DateFns3 0 1750000000000) ''2024-01-03T14:05:00'', [])
   \<and> parseISO (jsPlatform DateFns3 0 1750000000000) ''2024-01-03T14:05:00'' = Date 1704290700000"
  using parseCustomTimestamp_six_tokens
    [of "''Wed''" "''Jan''" "''03''" "''14:05:00''" "''UTC''" "''2024''" "''01''"
      "jsPlatform DateFns3 0 1750000000000"]
  by (simp add: run_defs)

text \<open>The five-piece timestamp of the claim is not in the format: the parser logs it and
  returns the clock's reading, here 2025-06-15 15:06:40, not 2024-01-03 14:05:00.\<close>

theorem parseCustomTimestamp_five_tokens_counterexample:
  "parseCustomTimestamp_log (jsPlatform DateFns3 0 1750000000000) ''Wed Jan 03 14:05:00 2024''
     = (Date 1750000000000, [(''Error parsing timestamp:'', ''Wed Jan 03 14:05:00 2024'')])
   \<and> parseISO (jsPlatform DateFns3 0 1750000000000) ''2024-01-03T14:05:00'' = Date 1704290700000
   \<and> newDate (jsPlatform DateFns3 0 1750000000000) ''2024-01-03T14:05:00'' = Date 1704290700000
   \<and> parseCustomTimestamp (jsPlatform DateFns3 0 1750000000000) ''Wed Jan 03 14:05:00 2024''
     \<noteq> parseISO (jsPlatform DateFns3 0 1750000000000) ''2024-01-03T14:05:00''"
  by (simp add: run_defs)

section \<open>The scroll and zoom window\<close>

text \<open>
  Claim C5. The claim promises \<open>0 \<le> clampedOffset \<le> maxOffset\<close> for every offset, a
  negative offset being clamped to 0. The components take the minimum of the offset and
  \<open>maxOffset\<close> and nothing else; the offset only ever comes from a slider whose least value
  is 0. So, for every offset that is not negative, every size and every length:
  \<open>maxOffset = max(0, length - size)\<close>, \<open>clampedOffset = min(offset, maxOffset)\<close>,
  \<open>0 \<le> clampedOffset \<le> maxOffset\<close>, and for a size that is not negative the visible slice
  is the \<open>size\<close> records from \<open>clampedOffset\<close> on, cut off at the end of the list.
\<close>

theorem window_invariant:
  assumes "0 \<le> scrollIndex"
  shows "maxScrollIndex n zoomLevel = max 0 (int n - zoomLevel)
       \<and> clampedScrollIndex n scrollIndex zoomLevel = min scrollIndex (maxScrollIndex n zoomLevel)
       \<and> 0 \<le> clampedScrollIndex n scrollIndex zoomLevel
       \<and> clampedScrollIndex n scrollIndex zoomLevel \<le> maxScrollIndex n zoomLevel
       \<and> (0 \<le> zoomLevel \<longrightarrow>
            visibleData xs scrollIndex zoomLevel
              = take (nat zoomLevel)
                  (drop (nat (clampedScrollIndex (length xs) scrollIndex zoomLevel)) xs))"
  using assms
  by (auto simp: maxScrollIndex_def clampedScrollIndex_def visibleData_def js_slice_def Let_def
      min_def max_def)

text \<open>Length 100, size 30, offset 90: \<open>maxOffset\<close> and \<open>clampedOffset\<close> are 70, and the slice
  holds the indices from 70 up to 100.\<close>

theorem window_invariant_witness:
  "(0::int) \<le> 90 \<and> maxScrollIndex 100 30 = 70 \<and> clampedScrollIndex 100 90 30 = 70
   \<and> visibleData [0..<100] 90 30 = [70..<100]"
  using window_invariant [of 90 100 30 "[0..<100]"]
  by (simp add: maxScrollIndex_def clampedScrollIndex_def)

text \<open>An offset of -5 stays -5.\<close>

theorem window_negative_offset_counterexample:
  "clampedScrollIndex 100 (- 5) 30 = - 5 \<and> \<not> 0 \<le> clampedScrollIndex 100 (- 5) 30"
  by (simp add: clampedScrollIndex_def maxScrollIndex_def)

text \<open>
  Claim C8. The claim keeps every zoom step within \<open>[10, filteredLength]\<close>. Zooming in takes
  the maximum with 10 and zooming out the minimum with the length of the unfiltered data, one
  bound each. So: after zooming in the size is at least 10; after zooming out it is at most
  the length of the unfiltered data; and when the size was between 10 and that length before
  the step, it is between them after it.
\<close>

theorem zoom_bounds:
  "10 \<le> zoomIn step prev \<and> zoomOut step dataLength prev \<le> int dataLength
   \<and> (0 \<le> step \<and> 10 \<le> prev \<and> prev \<le> int dataLength \<longrightarrow>
        10 \<le> zoomIn step prev \<and> zoomIn step prev \<le> int dataLength
        \<and> 10 \<le> zoomOut step dataLength prev \<and> zoomOut step dataLength prev \<le> int dataLength)"
  by (auto simp: zoomIn_def zoomOut_def)

theorem zoom_bounds_witness:
  "(0::int) \<le> 30 \<and> (10::int) \<le> 50 \<and> (50::int) \<le> int 100
   \<and> zoomIn 30 50 = 20 \<and> zoomOut 30 100 50 = 80
   \<and> 10 \<le> zoomIn 30 50 \<and> zoomOut 30 100 50 \<le> int 100"
  using zoom_bounds [of 30 50 100]
  by (simp add: zoomIn_def zoomOut_def)

text \<open>With two records, zooming out from 2 leaves a size of 2, below the floor, and zooming
  in gives 10, above the length of the data and so of any filtered list; with no record,
  zooming out from the second component's initial size of 50 gives 0.\<close>

theorem zoom_counterexample:
  "zoomOut 30 2 2 = 2 \<and> \<not> 10 \<le> zoomOut 30 2 2
   \<and> zoomIn 30 2 = 10 \<and> \<not> zoomIn 30 2 \<le> 2
   \<and> zoomOut 10 0 50 = 0"
  by (simp add: zoomIn_def zoomOut_def)

section \<open>The range filter\<close>

text \<open>
  Claim C9. For every list of records and every setting of the date range and the time
  range, each filter of the three components returns a subsequence of its input, in the
  input's order; and it returns exactly the input restricted to the records it returns, so
  that no occurrence of a kept record is dropped or repeated.
\<close>

theorem range_filter_subsequence:
  "subseq (dateFilter p date data) data
   \<and> filter (\<lambda>x. x \<in> set (dateFilter p date data)) data = dateFilter p date data
   \<and> subseq (dateFilter2 p from to data) data
   \<and> filter (\<lambda>x. x \<in> set (dateFilter2 p from to data)) data = dateFilter2 p from to data
   \<and> subseq (rawDateFilter p dateRange data) data
   \<and> filter (\<lambda>x. x \<in> set (rawDateFilter p dateRange data)) data = rawDateFilter p dateRange data
   \<and> subseq (rawTimeFilter p timeRange (rawDateFilter p dateRange data)) data
   \<and> filter (\<lambda>x. x \<in> set (rawTimeFilter p timeRange (rawDateFilter p dateRange data))) data
       = rawTimeFilter p timeRange (rawDateFilter p dateRange data)"
proof -
  have "subseq (rawTimeFilter p timeRange (rawDateFilter p dateRange data)) (rawDateFilter p dateRange data)"
    by (rule rawTimeFilter_subseq)
  then have both: "subseq (rawTimeFilter p timeRange (rawDateFilter p dateRange data)) data"
    using rawDateFilter_subseq subseq_order.order_trans by blast
  have "filter (\<lambda>x. x \<in> set (dateFilter2 p from to data)) data = dateFilter2 p from to data"
    by (simp add: dateFilter2_def filter_by_output)
  moreover have "subseq (dateFilter2 p from to data) data"
    by (simp add: dateFilter2_def)
  moreover have "filter (\<lambda>x. x \<in> set (rawTimeFilter p timeRange (rawDateFilter p dateRange data))) data
       = rawTimeFilter p timeRange (rawDateFilter p dateRange data)"
    by (simp add: rawTimeFilter_def rawDateFilter_def Let_def filter_by_output filter_member
        conj_assoc split: option.splits)
  ultimately show ?thesis
    using both by (simp add: dateFilter_subseq dateFilter_by_output rawDateFilter_subseq
        rawDateFilter_by_output)
qed

text \<open>
  Claim C10. The rows a component returns are, once the label is taken off, exactly the
  records its filter kept, in order and unchanged: the labelling pass copies the record and
  sets \<^verbatim>\<open>displayTime\<close>, nothing else. For the first component this holds whenever it returns
  at all (its labelling throws on a timestamp that does not parse).
\<close>

theorem label_pass_keeps_records:
  "map item (RawBatteryChart_filteredData p dateRange timeRange data)
     = rawTimeFilter p timeRange (rawDateFilter p dateRange data)
   \<and> map item (BatteryChart2_filteredData p None data) = data
   \<and> map item (BatteryChart2_filteredData p (Some \<lparr>dr_from = None, dr_to = t\<rparr>) data) = data
   \<and> map item (BatteryChart2_filteredData p (Some \<lparr>dr_from = Some f, dr_to = t\<rparr>) data)
     = dateFilter2 p (intervalStart p f) (intervalEnd p f t) data
   \<and> (BatteryChart_filteredData p date data = Inr rows \<longrightarrow> map item rows = dateFilter p date data)"
  by (simp add: raw_items chart2_items_no_date chart2_items_date chart_items)

theorem label_pass_keeps_records_witness:
  "BatteryChart_filteredData (jsPlatform DateFns3 (- 14400000) 1750000000000)
       (Some \<lparr>dr_from = Some (localDay (- 14400000) 2024 1 1), dr_to = None\<rparr>)
       [\<lparr>time = ''2024-01-01T08:00'', soc = Some 80, socPredicted = None\<rparr>,
        \<lparr>time = ''2024-01-02T08:00'', soc = Some 79, socPredicted = Some 78\<rparr>]
     = Inr [\<lparr>item = \<lparr>time = ''2024-01-01T08:00'', soc = Some 80, socPredicted = None\<rparr>,
             displayTime = ''08:00''\<rparr>]
   \<and> map item [\<lparr>item = \<lparr>time = ''2024-01-01T08:00'', soc = Some 80, socPredicted = None\<rparr>,
                 displayTime = ''08:00''\<rparr>]
     = dateFilter (jsPlatform DateFns3 (- 14400000) 1750000000000)
         (Some \<lparr>dr_from = Some (localDay (- 14400000) 2024 1 1), dr_to = None\<rparr>)
         [\<lparr>time = ''2024-01-01T08:00'', soc = Some 80, socPredicted = None\<rparr>,
          \<lparr>time = ''2024-01-02T08:00'', soc = Some 79, socPredicted = Some 78\<rparr>]"
proof -
  let ?p = "jsPlatform DateFns3 (- 14400000) 1750000000000"
  let ?date = "Some \<lparr>dr_from = Some (localDay (- 14400000) 2024 1 1), dr_to = None\<rparr>"
  let ?data = "[\<lparr>time = ''2024-01-01T08:00'', soc = Some 80, socPredicted = None\<rparr>,
                \<lparr>time = ''2024-01-02T08:00'', soc = Some 79, socPredicted = Some 78\<rparr>]"
  let ?rows = "[\<lparr>item = \<lparr>time = ''2024-01-01T08:00'', soc = Some 80, socPredicted = None\<rparr>,
                 displayTime = ''08:00''\<rparr>]"
  have run: "BatteryChart_filteredData ?p ?date ?data = Inr ?rows"
    by (simp add: BatteryChart_filteredData_def dateFilter_def label_def run_defs)
  from label_pass_keeps_records [where p = ?p and date = ?date and data = ?data and rows = ?rows]
  have "BatteryChart_filteredData ?p ?date ?data = Inr ?rows
        \<longrightarrow> map item ?rows = dateFilter ?p ?date ?data"
    by blast
  with run show ?thesis by blast
qed

section \<open>The date filter\<close>

text \<open>
  Claim C4. With no date range, or a range without a start, the date filter returns its
  input. With a start and no end, the end of the interval is the end of the start's day: the
  filter behaves as if the same day had been picked as end. With the single day 2024-01-01
  picked, of the records at 2024-01-01 08:00 and 2024-01-02 08:00 only the first is kept, in
  the first component (ISO timestamps) and in the raw chart (six-piece timestamps), under
  both versions of date-fns.
\<close>

theorem date_filter_absent_or_single_day:
  "dateFilter p None data = data
   \<and> dateFilter p (Some \<lparr>dr_from = None, dr_to = t\<rparr>) data = data
   \<and> rawDateFilter p None data = data
   \<and> rawDateFilter p (Some \<lparr>dr_from = None, dr_to = t\<rparr>) data = data
   \<and> intervalEnd p f None = endOfDay p f
   \<and> dateFilter p (Some \<lparr>dr_from = Some f, dr_to = None\<rparr>) data
     = dateFilter p (Some \<lparr>dr_from = Some f, dr_to = Some f\<rparr>) data
   \<and> rawDateFilter p (Some \<lparr>dr_from = Some f, dr_to = None\<rparr>) data
     = rawDateFilter p (Some \<lparr>dr_from = Some f, dr_to = Some f\<rparr>) data
   \<and> dateFilter (jsPlatform v (- 14400000) c)
       (Some \<lparr>dr_from = Some (localDay (- 14400000) 2024 1 1), dr_to = None\<rparr>)
       [\<lparr>time = ''2024-01-01T08:00'', soc = Some 80, socPredicted = None\<rparr>,
        \<lparr>time = ''2024-01-02T08:00'', soc = Some 79, socPredicted = None\<rparr>]
     = [\<lparr>time = ''2024-01-01T08:00'', soc = Some 80, socPredicted = None\<rparr>]
   \<and> rawDateFilter (jsPlatform v (- 14400000) c)
       (Some \<lparr>dr_from = Some (localDay (- 14400000) 2024 1 1), dr_to = None\<rparr>)
       [\<lparr>time = ''Mon Jan 01 08:00:00 UTC 2024''\<rparr>, \<lparr>time = ''Tue Jan 02 08:00:00 UTC 2024''\<rparr>]
     = [\<lparr>time = ''Mon Jan 01 08:00:00 UTC 2024''\<rparr>]"
proof -
  have absent: "dateFilter p None data = data"
    "dateFilter p (Some \<lparr>dr_from = None, dr_to = t\<rparr>) data = data"
    "rawDateFilter p None data = data"
    "rawDateFilter p (Some \<lparr>dr_from = None, dr_to = t\<rparr>) data = data"
    by (simp_all add: dateFilter_def rawDateFilter_def)
  have single: "intervalEnd p f None = endOfDay p f"
    "dateFilter p (Some \<lparr>dr_from = Some f, dr_to = None\<rparr>) data
       = dateFilter p (Some \<lparr>dr_from = Some f, dr_to = Some f\<rparr>) data"
    "rawDateFilter p (Some \<lparr>dr_from = Some f, dr_to = None\<rparr>) data
       = rawDateFilter p (Some \<lparr>dr_from = Some f, dr_to = Some f\<rparr>) data"
    by (simp_all add: dateFilter_def rawDateFilter_def intervalEnd_def)
  have iso: "dateFilter (jsPlatform v (- 14400000) c)
       (Some \<lparr>dr_from = Some (localDay (- 14400000) 2024 1 1), dr_to = None\<rparr>)
       [\<lparr>time = ''2024-01-01T08:00'', soc = Some 80, socPredicted = None\<rparr>,
        \<lparr>time = ''2024-01-02T08:00'', soc = Some 79, socPredicted = None\<rparr>]
     = [\<lparr>time = ''2024-01-01T08:00'', soc = Some 80, socPredicted = None\<rparr>]"
    by (cases v) (simp_all add: dateFilter_def run_defs)
  have raw: "rawDateFilter (jsPlatform v (- 14400000) c)
       (Some \<lparr>dr_from = Some (localDay (- 14400000) 2024 1 1), dr_to = None\<rparr>)
       [\<lparr>time = ''Mon Jan 01 08:00:00 UTC 2024''\<rparr>, \<lparr>time = ''Tue Jan 02 08:00:00 UTC 2024''\<rparr>]
     = [\<lparr>time = ''Mon Jan 01 08:00:00 UTC 2024''\<rparr>]"
    by (cases v) (simp_all add: rawDateFilter_def run_defs)
  from absent single iso raw show ?thesis by blast
qed

section \<open>The labels\<close>

text \<open>
  Claim C6. With a start date picked, the second component labels every row from the number
  of full days between the start of the first day and the end of the last: with 0 to 7 days
  the label is the record's hour and minute, with 8 to 31 days its day of the month in two
  digits, and with more than 31 days the abbreviated name of its month.
\<close>

theorem label_granularity:
  assumes "dr_from dr = Some f"
    and "differenceInDays p (intervalEnd p f (dr_to dr)) (intervalStart p f) = Some n"
    and "row \<in> set (BatteryChart2_filteredData p (Some dr) data)"
  shows "(0 \<le> n \<and> n \<le> 7 \<longrightarrow>
            format p (newDate p (time (item row))) Fmt_HHmm = Inr (displayTime row))
       \<and> (8 \<le> n \<and> n \<le> 31 \<longrightarrow>
            format p (newDate p (time (item row))) Fmt_dd = Inr (displayTime row))
       \<and> (31 < n \<longrightarrow>
            format p (newDate p (time (item row))) Fmt_MMM = Inr (displayTime row))"
proof -
  let ?from = "intervalStart p f" and ?to = "intervalEnd p f (dr_to dr)"
  from assms obtain x where x: "x \<in> set (dateFilter2 p ?from ?to data)"
    and row: "row = labelInRange p (Some n) x"
    by (auto simp: BatteryChart2_filteredData_def Let_def split: if_splits)
  from x have "isValid (newDate p (time x))"
    by (auto simp: dateFilter2_def caught_def Let_def split: if_splits)
  then obtain t where t: "newDate p (time x) = Date t"
    by (cases "newDate p (time x)") (auto simp: isValid_def)
  then have "item row = x"
    and "format p (newDate p (time x)) (spanPattern (Some n)) = Inr (displayTime row)"
    using row by (simp_all add: labelInRange_def isValid_def format_def Let_def)
  moreover have "spanPattern (Some n) = (if n \<le> 7 then Fmt_HHmm else if n \<le> 31 then Fmt_dd else Fmt_MMM)"
    by (simp add: spanPattern_def)
  ultimately have "format p (newDate p (time (item row)))
      (if n \<le> 7 then Fmt_HHmm else if n \<le> 31 then Fmt_dd else Fmt_MMM) = Inr (displayTime row)"
    by simp
  then show ?thesis
    by (simp split: if_splits)
qed

text \<open>Three days (1 to 4 January) give hour and minute; forty days (1 January to
  10 February) give the month's abbreviation.\<close>

theorem label_granularity_witness:
  "differenceInDays (jsPlatform DateFns3 (- 14400000) 1750000000000)
       (intervalEnd (jsPlatform DateFns3 (- 14400000) 1750000000000)
          (localDay (- 14400000) 2024 1 1) (Some (localDay (- 14400000) 2024 1 4)))
       (intervalStart (jsPlatform DateFns3 (- 14400000) 1750000000000)
          (localDay (- 14400000) 2024 1 1)) = Some 3
   \<and> BatteryChart2_filteredData (jsPlatform DateFns3 (- 14400000) 1750000000000)
       (Some \<lparr>dr_from = Some (localDay (- 14400000) 2024 1 1),
              dr_to = Some (localDay (- 14400000) 2024 1 4)\<rparr>)
       [\<lparr>time = ''2024-01-02T08:30:00''\<rparr>]
     = [\<lparr>item = \<lparr>time = ''2024-01-02T08:30:00''\<rparr>, displayTime = ''08:30''\<rparr>]
   \<and> format (jsPlatform DateFns3 (- 14400000) 1750000000000)
       (newDate (jsPlatform DateFns3 (- 14400000) 1750000000000) ''2024-01-02T08:30:00'') Fmt_HHmm
     = Inr ''08:30''
   \<and> differenceInDays (jsPlatform DateFns3 (- 14400000) 1750000000000)
       (intervalEnd (jsPlatform DateFns3 (- 14400000) 1750000000000)
          (localDay (- 14400000) 2024 1 1) (Some (localDay (- 14400000) 2024 2 10)))
       (intervalStart (jsPlatform DateFns3 (- 14400000) 1750000000000)
          (localDay (- 14400000) 2024 1 1)) = Some 40
   \<and> BatteryChart2_filteredData (jsPlatform DateFns3 (- 14400000) 1750000000000)
       (Some \<lparr>dr_from = Some (localDay (- 14400000) 2024 1 1),
              dr_to = Some (localDay (- 14400000) 2024 2 10)\<rparr>)
       [\<lparr>time = ''2024-02-02T08:30:00''\<rparr>]
     = [\<lparr>item = \<lparr>time = ''2024-02-02T08:30:00''\<rparr>, displayTime = ''Feb''\<rparr>]
   \<and> format (jsPlatform DateFns3 (- 14400000) 1750000000000)
       (newDate (jsPlatform DateFns3 (- 14400000) 1750000000000) ''2024-02-02T08:30:00'') Fmt_MMM
     = Inr ''Feb''"
proof -
  let ?p = "jsPlatform DateFns3 (- 14400000) 1750000000000"
  let ?f = "localDay (- 14400000) 2024 1 1"
  let ?dr3 = "\<lparr>dr_from = Some ?f, dr_to = Some (localDay (- 14400000) 2024 1 4)\<rparr>"
  let ?dr40 = "\<lparr>dr_from = Some ?f, dr_to = Some (localDay (- 14400000) 2024 2 10)\<rparr>"
  let ?row3 = "\<lparr>item = \<lparr>time = ''2024-01-02T08:30:00''\<rparr>, displayTime = ''08:30''\<rparr>"
  let ?row40 = "\<lparr>item = \<lparr>time = ''2024-02-02T08:30:00''\<rparr>, displayTime = ''Feb''\<rparr>"
  have d3: "differenceInDays ?p (intervalEnd ?p ?f (dr_to ?dr3)) (intervalStart ?p ?f) = Some 3"
    by (simp add: run_defs)
  have d40: "differenceInDays ?p (intervalEnd ?p ?f (dr_to ?dr40)) (intervalStart ?p ?f) = Some 40"
    by (simp add: run_defs)
  have r3: "BatteryChart2_filteredData ?p (Some ?dr3) [\<lparr>time = ''2024-01-02T08:30:00''\<rparr>] = [?row3]"
    by (simp add: BatteryChart2_filteredData_def dateFilter2_def labelInRange_def spanPattern_def run_defs)
  have r40: "BatteryChart2_filteredData ?p (Some ?dr40) [\<lparr>time = ''2024-02-02T08:30:00''\<rparr>] = [?row40]"
    by (simp add: BatteryChart2_filteredData_def dateFilter2_def labelInRange_def spanPattern_def run_defs)
  have "format ?p (newDate ?p (time (item ?row3))) Fmt_HHmm = Inr (displayTime ?row3)"
    using label_granularity [where p = ?p and dr = ?dr3 and f = ?f and n = 3 and row = ?row3
        and data = "[\<lparr>time = ''2024-01-02T08:30:00''\<rparr>]"] d3 r3
    by simp
  moreover have "format ?p (newDate ?p (time (item ?row40))) Fmt_MMM = Inr (displayTime ?row40)"
    using label_granularity [where p = ?p and dr = ?dr40 and f = ?f and n = 40 and row = ?row40
        and data = "[\<lparr>time = ''2024-02-02T08:30:00''\<rparr>]"] d40 r40
    by simp
  ultimately show ?thesis using d3 d40 r3 r40 by simp
qed

section \<open>Timestamps that do not parse\<close>




text \<open>
  Claim C7. A record whose timestamp does not parse is to be labelled with its raw text,
  without a crash, and to be left out of every date-filtered view. On the single record
  \<^verbatim>\<open>"not-a-date"\<close>: the first component's labelling throws (no handler around \<^verbatim>\<open>format\<close>);
  the raw chart labels the record with the clock's \<^verbatim>\<open>15:06\<close>, and keeps it in the view
  filtered to the clock's day; only the second component labels it with the raw text.
\<close>

theorem unparseable_timestamp_labels:
  "BatteryChart_filteredData (jsPlatform v 0 1750000000000) None [\<lparr>time = ''not-a-date''\<rparr>]
     = Inl (RangeError ''Invalid time value'')
   \<and> RawBatteryChart_filteredData (jsPlatform v 0 1750000000000) None
       \<lparr>tr_start = ''00:00'', tr_end = ''23:59''\<rparr> [\<lparr>time = ''not-a-date''\<rparr>]
     = [\<lparr>item = \<lparr>time = ''not-a-date''\<rparr>, displayTime = ''15:06''\<rparr>]
   \<and> RawBatteryChart_filteredData (jsPlatform v 0 1750000000000)
       (Some \<lparr>dr_from = Some (localDay 0 2025 6 15), dr_to = None\<rparr>)
       \<lparr>tr_start = ''00:00'', tr_end = ''23:59''\<rparr> [\<lparr>time = ''not-a-date''\<rparr>]
     = [\<lparr>item = \<lparr>time = ''not-a-date''\<rparr>, displayTime = ''15:06''\<rparr>]
   \<and> BatteryChart2_filteredData (jsPlatform v 0 1750000000000) None [\<lparr>time = ''not-a-date''\<rparr>]
     = [\<lparr>item = \<lparr>time = ''not-a-date''\<rparr>, displayTime = ''not-a-date''\<rparr>]"
proof -
  have "BatteryChart_filteredData (jsPlatform v 0 1750000000000) None [\<lparr>time = ''not-a-date''\<rparr>]
     = Inl (RangeError ''Invalid time value'')"
    by (simp add: BatteryChart_filteredData_def dateFilter_def label_def run_defs)
  moreover have "RawBatteryChart_filteredData (jsPlatform v 0 1750000000000) None
       \<lparr>tr_start = ''00:00'', tr_end = ''23:59''\<rparr> [\<lparr>time = ''not-a-date''\<rparr>]
     = [\<lparr>item = \<lparr>time = ''not-a-date''\<rparr>, displayTime = ''15:06''\<rparr>]"
    by (cases v)
      (simp_all add: RawBatteryChart_filteredData_def rawDateFilter_def rawTimeFilter_def
        rawLabel_def run_defs)
  moreover have "RawBatteryChart_filteredData (jsPlatform v 0 1750000000000)
       (Some \<lparr>dr_from = Some (localDay 0 2025 6 15), dr_to = None\<rparr>)
       \<lparr>tr_start = ''00:00'', tr_end = ''23:59''\<rparr> [\<lparr>time = ''not-a-date''\<rparr>]
     = [\<lparr>item = \<lparr>time = ''not-a-date''\<rparr>, displayTime = ''15:06''\<rparr>]"
    by (cases v)
      (simp_all add: RawBatteryChart_filteredData_def rawDateFilter_def rawTimeFilter_def
        rawLabel_def run_defs)
  moreover have "BatteryChart2_filteredData (jsPlatform v 0 1750000000000) None [\<lparr>time = ''not-a-date''\<rparr>]
     = [\<lparr>item = \<lparr>time = ''not-a-date''\<rparr>, displayTime = ''not-a-date''\<rparr>]"
    by (simp add: BatteryChart2_filteredData_def labelNoRange_def run_defs)
  ultimately show ?thesis by blast
qed

section \<open>The time-of-day filter\<close>

text \<open>
  Claim C1. The time-of-day filter is to keep exactly the records whose own hour and minute
  lie within the bounds, and to leave out every record that does not parse. The filter sets
  the record's hour and minute to 0 before it compares (\<^verbatim>\<open>itemTime\<close>), so it compares
  midnight of the record's day with the bounds. A record at 14:05 is dropped under the bounds
  08:00 to 17:00 and kept under the bounds 00:00 to 01:00; and \<^verbatim>\<open>"not-a-date"\<close> is kept under
  the bounds 00:00 to 23:59.
\<close>

theorem time_of_day_filter_compares_midnight:
  "RawBatteryChart_filteredData (jsPlatform v (- 14400000) c) None
       \<lparr>tr_start = ''08:00'', tr_end = ''17:00''\<rparr> [\<lparr>time = ''Wed Jan 03 14:05:00 UTC 2024''\<rparr>]
     = []
   \<and> RawBatteryChart_filteredData (jsPlatform v (- 14400000) c) None
       \<lparr>tr_start = ''00:00'', tr_end = ''01:00''\<rparr> [\<lparr>time = ''Wed Jan 03 14:05:00 UTC 2024''\<rparr>]
     = [\<lparr>item = \<lparr>time = ''Wed Jan 03 14:05:00 UTC 2024''\<rparr>, displayTime = ''14:05''\<rparr>]
   \<and> rawTimeFilter (jsPlatform v 0 1750000000000)
       \<lparr>tr_start = ''00:00'', tr_end = ''23:59''\<rparr> [\<lparr>time = ''not-a-date''\<rparr>]
     = [\<lparr>time = ''not-a-date''\<rparr>]"
proof -
  have "RawBatteryChart_filteredData (jsPlatform v (- 14400000) c) None
       \<lparr>tr_start = ''08:00'', tr_end = ''17:00''\<rparr> [\<lparr>time = ''Wed Jan 03 14:05:00 UTC 2024''\<rparr>]
     = []"
    by (cases v)
      (simp_all add: RawBatteryChart_filteredData_def rawDateFilter_def rawTimeFilter_def run_defs)
  moreover have "RawBatteryChart_filteredData (jsPlatform v (- 14400000) c) None
       \<lparr>tr_start = ''00:00'', tr_end = ''01:00''\<rparr> [\<lparr>time = ''Wed Jan 03 14:05:00 UTC 2024''\<rparr>]
     = [\<lparr>item = \<lparr>time = ''Wed Jan 03 14:05:00 UTC 2024''\<rparr>, displayTime = ''14:05''\<rparr>]"
    by (cases v)
      (simp_all add: RawBatteryChart_filteredData_def rawDateFilter_def rawTimeFilter_def
        rawLabel_def run_defs)
  moreover have "rawTimeFilter (jsPlatform v 0 1750000000000)
       \<lparr>tr_start = ''00:00'', tr_end = ''23:59''\<rparr> [\<lparr>time = ''not-a-date''\<rparr>]
     = [\<lparr>time = ''not-a-date''\<rparr>]"
    by (cases v) (simp_all add: rawTimeFilter_def run_defs)
  ultimately show ?thesis by blast
qed

end
